theory Spec2Isabelle
  imports Complex_Main
begin

section \<open>Incentive calculators of \<^verbatim>\<open>incentive_app.py\<close>\<close>

text \<open>
  Each calculator of the application reads its inputs from widgets, computes a few local
  variables by nested comparisons and table lookups, and shows them. The embedding takes
  the widget values as arguments and returns the final values of the local variables.

  Numbers: widget values declared with integer bounds (\<^verbatim>\<open>min_value=0, step=1\<close>) are
  Python \<^verbatim>\<open>int\<close>s and are modelled by \<^typ>\<open>int\<close>; the others are Python floats and
  are modelled by exact rationals (\<^typ>\<open>rat\<close>), so a literal such as \<^verbatim>\<open>1.1\<close> stands
  for the fraction it denotes and no rounding takes place. True division \<^verbatim>\<open>/\<close> raises
  \<^verbatim>\<open>ZeroDivisionError\<close> on a zero divisor and indexing a list out of range raises
  \<^verbatim>\<open>IndexError\<close>; both are results of the model.

  The string tags of the source (\<^verbatim>\<open>"Group A"\<close>, \<^verbatim>\<open>"Slab 1"\<close>, \<^verbatim>\<open>"Syrup"\<close>, ...) are
  constructors; the empty string, which Python treats as false, is \<^term>\<open>None\<close>.
\<close>

subsection \<open>Python primitives\<close>

datatype py_error = ZeroDivisionError | IndexError

definition py_truediv :: "rat \<Rightarrow> rat \<Rightarrow> py_error + rat" where
  "py_truediv a b = (if b = 0 then Inl ZeroDivisionError else Inr (a / b))"

text \<open>\<^verbatim>\<open>xs[i]\<close> on a list: a negative index counts from the end.\<close>

definition py_getitem :: "'a list \<Rightarrow> int \<Rightarrow> py_error + 'a" where
  "py_getitem xs i =
     (if 0 \<le> i \<and> i < int (length xs) then Inr (xs ! nat i)
      else if i < 0 \<and> - int (length xs) \<le> i then Inr (xs ! nat (int (length xs) + i))
      else Inl IndexError)"

subsection \<open>Group from PCPM\<close>

datatype group = Group_A | Group_B | Group_C | Group_D

text \<open>
  Lines 167--176 (repeated at 234--243, 308--317 and 360--369): \<^verbatim>\<open>group = ""\<close>, then
  \<^verbatim>\<open>if pcpm:\<close> the chain of \<^verbatim>\<open><\<close> tests. \<^verbatim>\<open>if pcpm\<close> is true for every nonzero number.
\<close>

definition group_of_pcpm :: "rat \<Rightarrow> group option" where
  "group_of_pcpm pcpm =
     (if pcpm \<noteq> 0 then
        (if pcpm < 1.5 then Some Group_A
         else if pcpm < 2.5 then Some Group_B
         else if pcpm < 4.0 then Some Group_C
         else Some Group_D)
      else None)"

subsection \<open>Hyterce\<close>

datatype product = Syrup | Drops

datatype hyterce_slab = No_Incentive | Slab_1 | Slab_2 | Slab_3

record hyterce_result =
  h_pcpm :: rat
  h_slab :: hyterce_slab
  h_rate :: int
  h_incentive :: rat

text \<open>
  \<^verbatim>\<open>hyterce_calculator\<close>, lines 108--138. No product selected (\<^term>\<open>None\<close>) shows the
  prompt only: the result is \<^term>\<open>Inr None\<close>.
\<close>

definition hyterce_calculator ::
  "product option \<Rightarrow> int \<Rightarrow> int \<Rightarrow> py_error + hyterce_result option" where
  "hyterce_calculator product total_units months =
     (case product of
        None \<Rightarrow> Inr None
      | Some prd \<Rightarrow>
          (case (if months \<noteq> 0 then py_truediv (of_int total_units) (of_int months)
                 else Inr 0) of
             Inl e \<Rightarrow> Inl e
           | Inr pcpm \<Rightarrow>
               (let slab =
                      (if pcpm \<ge> 200 then
                         (if pcpm < 400 then Slab_1
                          else if pcpm < 600 then Slab_2
                          else Slab_3)
                       else No_Incentive);
                    rate =
                      (if pcpm \<ge> 200 then
                         (if prd = Syrup then
                            (if slab = Slab_1 then 4 else if slab = Slab_2 then 6 else 8)
                          else
                            (if slab = Slab_1 then 3 else if slab = Slab_2 then 4 else 5))
                       else 0);
                    incentive = pcpm * of_int rate
                in Inr (Some \<lparr>h_pcpm = pcpm, h_slab = slab, h_rate = rate,
                                h_incentive = incentive\<rparr>))))"

subsection \<open>MR annual incentive\<close>

record mr_annual_result =
  a_group :: "group option"
  a_multiplier :: rat
  a_incentive :: rat

text \<open>
  \<^verbatim>\<open>mr_annual_incentive\<close>, lines 167--196. With no group every \<^verbatim>\<open>elif group == ...\<close>
  fails and the multiplier stays 0.
\<close>

definition mr_annual_incentive :: "rat \<Rightarrow> rat \<Rightarrow> rat \<Rightarrow> mr_annual_result" where
  "mr_annual_incentive pcpm achievement salary =
     (let grp = group_of_pcpm pcpm;
          multiplier =
            (if achievement \<ge> 110 then
               (if grp = Some Group_A then 1
                else if grp = Some Group_B then 1.1
                else if grp = Some Group_C then 1.25
                else if grp = Some Group_D then 1.5
                else 0)
             else if achievement \<ge> 105 then
               (if grp = Some Group_A then 0.75
                else if grp = Some Group_B then 0.8
                else if grp = Some Group_C then 0.9
                else if grp = Some Group_D then 1
                else 0)
             else 0);
          incentive = salary * multiplier
      in \<lparr>a_group = grp, a_multiplier = multiplier, a_incentive = incentive\<rparr>)"

subsection \<open>MR volume incentive\<close>

datatype period = Quarter | Annual

record mr_volume_result =
  v_group :: group
  v_rate :: rat
  v_incentive :: rat

text \<open>The nested helper \<^verbatim>\<open>lookup_rate\<close>, lines 246--277.\<close>

definition lookup_rate :: "rat \<Rightarrow> group \<Rightarrow> rat" where
  "lookup_rate ach grp =
     (if ach \<ge> 110 then
        (case grp of Group_A \<Rightarrow> 0.75 | Group_B \<Rightarrow> 0.90 | Group_C \<Rightarrow> 1.00 | Group_D \<Rightarrow> 1.20)
      else if ach \<ge> 105 then
        (case grp of Group_A \<Rightarrow> 0.62 | Group_B \<Rightarrow> 0.70 | Group_C \<Rightarrow> 0.87 | Group_D \<Rightarrow> 1.00)
      else if ach \<ge> 100 then
        (case grp of Group_A \<Rightarrow> 0.50 | Group_B \<Rightarrow> 0.60 | Group_C \<Rightarrow> 0.75 | Group_D \<Rightarrow> 0.80)
      else if ach \<ge> 95 then
        (case grp of Group_A \<Rightarrow> 0.25 | Group_B \<Rightarrow> 0.30 | Group_C \<Rightarrow> 0.35 | Group_D \<Rightarrow> 0.40)
      else 0)"

text \<open>
  \<^verbatim>\<open>mr_volume_incentive\<close>, lines 234--287: the rate and the incentive exist only under
  \<^verbatim>\<open>if period and group\<close>; otherwise the prompt is shown (\<^term>\<open>None\<close>). The divisor of
  \<^verbatim>\<open>sale * rate / 100\<close> is the literal 100.
\<close>

definition mr_volume_incentive ::
  "period option \<Rightarrow> rat \<Rightarrow> rat \<Rightarrow> rat \<Rightarrow> mr_volume_result option" where
  "mr_volume_incentive period pcpm achievement sale =
     (case (period, group_of_pcpm pcpm) of
        (Some _, Some grp) \<Rightarrow>
          (let rate = lookup_rate achievement grp;
               incentive = sale * rate / 100
           in Some \<lparr>v_group = grp, v_rate = rate, v_incentive = incentive\<rparr>)
      | _ \<Rightarrow> None)"

subsection \<open>Bounded number inputs\<close>

text \<open>
  The counts are read by \<^verbatim>\<open>st.number_input(..., min_value=lo, max_value=hi, step=1)\<close>. The
  widget hands the program a value within its declared bounds only: an entry outside them
  is refused at the widget and the code after it never sees that entry.
\<close>

datatype 'a entry = Refused | Accepted 'a

definition number_input :: "int \<Rightarrow> int \<Rightarrow> int \<Rightarrow> int entry" where
  "number_input min_value max_value entered =
     (if min_value \<le> entered \<and> entered \<le> max_value then Accepted entered else Refused)"

subsection \<open>Brand incentives\<close>

text \<open>The table \<^verbatim>\<open>amounts\<close> of \<^verbatim>\<open>mr_brand_incentive\<close>, lines 319--324.\<close>

definition brand_amounts :: "group \<Rightarrow> int list" where
  "brand_amounts grp =
     (case grp of
        Group_A \<Rightarrow> [0, 1000, 2000, 3000, 4000, 5000, 6000, 7000, 8000, 9000, 10000, 11000]
      | Group_B \<Rightarrow> [0, 1500, 3000, 4500, 6000, 7500, 9000, 10500, 12000, 13500, 15000, 16500]
      | Group_C \<Rightarrow> [0, 2000, 4000, 6000, 8000, 10000, 12000, 14000, 16000, 18000, 20000, 22000]
      | Group_D \<Rightarrow> [0, 2500, 5000, 7500, 10000, 12500, 15000, 17500, 20000, 22500, 25000, 27500])"

text \<open>
  \<^verbatim>\<open>mr_brand_incentive\<close>, lines 308--335: \<^verbatim>\<open>amounts[group][int(num_groups)]\<close> when a
  group is defined, the prompt (\<^term>\<open>None\<close>) otherwise. The count comes from a widget
  declared with \<^verbatim>\<open>min_value=1, max_value=11\<close>.
\<close>

definition mr_brand_incentive :: "rat \<Rightarrow> int \<Rightarrow> py_error + (group \<times> int) option" where
  "mr_brand_incentive pcpm num_groups =
     (case group_of_pcpm pcpm of
        None \<Rightarrow> Inr None
      | Some grp \<Rightarrow>
          (case py_getitem (brand_amounts grp) num_groups of
             Inl e \<Rightarrow> Inl e
           | Inr incentive \<Rightarrow> Inr (Some (grp, incentive))))"

text \<open>
  The rule from the entry on: the widget of lines 300--307 (\<^verbatim>\<open>min_value=1\<close>,
  \<^verbatim>\<open>max_value=11\<close>), then lines 308--335 on the value it hands over.
\<close>

definition mr_brand_incentive_entered ::
  "rat \<Rightarrow> int \<Rightarrow> (py_error + (group \<times> int) option) entry" where
  "mr_brand_incentive_entered pcpm entered =
     (case number_input 1 11 entered of
        Refused \<Rightarrow> Refused
      | Accepted num_groups \<Rightarrow> Accepted (mr_brand_incentive pcpm num_groups))"

text \<open>The table \<^verbatim>\<open>amounts\<close> of \<^verbatim>\<open>mr_quarterly_brand_incentive\<close>, lines 370--375.\<close>

definition quarterly_amounts :: "group \<Rightarrow> int list" where
  "quarterly_amounts grp =
     (case grp of
        Group_A \<Rightarrow> [0, 500, 1000, 1500, 2000]
      | Group_B \<Rightarrow> [0, 750, 1500, 2250, 3000]
      | Group_C \<Rightarrow> [0, 1000, 2000, 3000, 4000]
      | Group_D \<Rightarrow> [0, 1500, 3000, 4500, 6000])"

text \<open>
  \<^verbatim>\<open>mr_quarterly_brand_incentive\<close>, lines 360--384; the count comes from a widget
  declared with \<^verbatim>\<open>min_value=1, max_value=4\<close>.
\<close>

definition mr_quarterly_brand_incentive ::
  "rat \<Rightarrow> int \<Rightarrow> py_error + (group \<times> int) option" where
  "mr_quarterly_brand_incentive pcpm num_brands =
     (case group_of_pcpm pcpm of
        None \<Rightarrow> Inr None
      | Some grp \<Rightarrow>
          (case py_getitem (quarterly_amounts grp) num_brands of
             Inl e \<Rightarrow> Inl e
           | Inr incentive \<Rightarrow> Inr (Some (grp, incentive))))"

text \<open>
  The rule from the entry on: the widget of lines 352--359 (\<^verbatim>\<open>min_value=1\<close>,
  \<^verbatim>\<open>max_value=4\<close>), then lines 360--384 on the value it hands over.
\<close>

definition mr_quarterly_brand_incentive_entered ::
  "rat \<Rightarrow> int \<Rightarrow> (py_error + (group \<times> int) option) entry" where
  "mr_quarterly_brand_incentive_entered pcpm entered =
     (case number_input 1 4 entered of
        Refused \<Rightarrow> Refused
      | Accepted num_brands \<Rightarrow> Accepted (mr_quarterly_brand_incentive pcpm num_brands))"

subsection \<open>Manager incentive\<close>

record manager_result =
  m_eligible :: bool
  m_multiplier :: rat
  m_incentive :: rat

text \<open>
  Lines 426--436 of \<^verbatim>\<open>manager_incentive\<close>: eligibility, multiplier and incentive. The
  division of line 435 stands under \<^verbatim>\<open>if num_mrs else 0\<close>.
\<close>

definition average_mr_incentive :: "rat \<Rightarrow> int \<Rightarrow> py_error + rat" where
  "average_mr_incentive total_mr_incentive num_mrs =
     (if num_mrs \<noteq> 0 then py_truediv total_mr_incentive (of_int num_mrs) else Inr 0)"

definition manager_amount ::
  "rat \<Rightarrow> rat \<Rightarrow> rat \<Rightarrow> rat \<Rightarrow> int \<Rightarrow> rat \<Rightarrow> py_error + manager_result" where
  "manager_amount threshold high_multiplier achievement total_mr_incentive num_mrs pct_mrs =
     (let eligible = (pct_mrs \<ge> threshold);
          multiplier =
            (if eligible then
               (if achievement \<ge> 100 then high_multiplier
                else if achievement \<ge> 95 then 1
                else 0)
             else 0)
      in if multiplier > 0 then
           (case average_mr_incentive total_mr_incentive num_mrs of
              Inl e \<Rightarrow> Inl e
            | Inr average \<Rightarrow>
                Inr \<lparr>m_eligible = eligible, m_multiplier = multiplier,
                     m_incentive = average * multiplier\<rparr>)
         else Inr \<lparr>m_eligible = eligible, m_multiplier = multiplier, m_incentive = 0\<rparr>)"

text \<open>
  The whole of \<^verbatim>\<open>manager_incentive\<close>, lines 426--445: after the computation, an
  eligible role is shown the average \<^verbatim>\<open>total_mr_incentive/num_mrs\<close> (line 440), a
  division that stands under no test of \<^verbatim>\<open>num_mrs\<close>. The second component of the result
  is the average shown, \<^term>\<open>None\<close> when the role is not eligible and the warning is shown
  instead.
\<close>

definition manager_incentive ::
  "rat \<Rightarrow> rat \<Rightarrow> rat \<Rightarrow> rat \<Rightarrow> int \<Rightarrow> rat \<Rightarrow> py_error + (manager_result \<times> rat option)" where
  "manager_incentive threshold high_multiplier achievement total_mr_incentive num_mrs pct_mrs =
     (case manager_amount threshold high_multiplier achievement total_mr_incentive
             num_mrs pct_mrs of
        Inl e \<Rightarrow> Inl e
      | Inr r \<Rightarrow>
          if m_eligible r then
            (case py_truediv total_mr_incentive (of_int num_mrs) of
               Inl e \<Rightarrow> Inl e
             | Inr shown \<Rightarrow> Inr (r, Some shown))
          else Inr (r, None))"

text \<open>The three calls of \<^verbatim>\<open>main\<close>, lines 533--538.\<close>

datatype role = ASM | RSM_BM | ZBM

definition role_threshold :: "role \<Rightarrow> rat" where
  "role_threshold r = (case r of ASM \<Rightarrow> 60 | RSM_BM \<Rightarrow> 50 | ZBM \<Rightarrow> 40)"

definition role_high_multiplier :: "role \<Rightarrow> rat" where
  "role_high_multiplier r = (case r of ASM \<Rightarrow> 1.5 | RSM_BM \<Rightarrow> 1.3 | ZBM \<Rightarrow> 1.2)"

definition role_incentive ::
  "role \<Rightarrow> rat \<Rightarrow> rat \<Rightarrow> int \<Rightarrow> rat \<Rightarrow> py_error + (manager_result \<times> rat option)" where
  "role_incentive r = manager_incentive (role_threshold r) (role_high_multiplier r)"

subsection \<open>Resplash\<close>

datatype resplash_slab = No_Slab | Aspire | Eminence | Pinnacle | Summit

record resplash_result =
  r_incremental_units :: int
  r_slab :: resplash_slab
  r_rate :: rat
  r_precision_incentive :: rat
  r_excellence_eligible :: bool

text \<open>
  \<^verbatim>\<open>resplash_incentive\<close>, lines 470--508. \<^term>\<open>No_Slab\<close> is the label
  \<^verbatim>\<open>"No Incentive"\<close>; no positive increment shows the prompt (\<^term>\<open>None\<close>).
\<close>

definition resplash_incentive :: "int \<Rightarrow> int \<Rightarrow> resplash_result option" where
  "resplash_incentive base_units current_units =
     (let incremental_units =
            (if current_units > base_units then current_units - base_units else 0)
      in if incremental_units > 0 then
           (let (slab, rate) =
                  (if incremental_units < 1500 then (No_Slab, 0)
                   else if incremental_units < 3000 then (Aspire, 0.75)
                   else if incremental_units < 4500 then (Eminence, 1.00)
                   else if incremental_units < 6000 then (Pinnacle, 1.25)
                   else (Summit, 1.50));
                precision_incentive = of_int incremental_units * rate;
                excellence_eligible = (incremental_units \<ge> 7500)
            in Some \<lparr>r_incremental_units = incremental_units, r_slab = slab, r_rate = rate,
                      r_precision_incentive = precision_incentive,
                      r_excellence_eligible = excellence_eligible\<rparr>)
         else None)"

section \<open>Properties\<close>

subsection \<open>Auxiliary facts\<close>

text \<open>The classifier and the two tables.\<close>

lemma group_of_pcpm_Some: "p \<noteq> 0 \<Longrightarrow> \<exists>g. group_of_pcpm p = Some g"
  by (simp add: group_of_pcpm_def)

lemma length_brand_amounts: "length (brand_amounts g) = 12"
  by (cases g) (simp_all add: brand_amounts_def)

lemma length_quarterly_amounts: "length (quarterly_amounts g) = 5"
  by (cases g) (simp_all add: quarterly_amounts_def)

lemma sorted_brand_amounts: "sorted (brand_amounts g)"
  by (cases g) (simp_all add: brand_amounts_def)

lemma sorted_quarterly_amounts: "sorted (quarterly_amounts g)"
  by (cases g) (simp_all add: quarterly_amounts_def)

lemma brand_amounts_nonneg: "\<forall>x \<in> set (brand_amounts g). 0 \<le> x"
  by (cases g) (simp_all add: brand_amounts_def)

lemma quarterly_amounts_nonneg: "\<forall>x \<in> set (quarterly_amounts g). 0 \<le> x"
  by (cases g) (simp_all add: quarterly_amounts_def)

lemma py_getitem_in_range:
  "0 \<le> i \<Longrightarrow> i < int (length xs) \<Longrightarrow> py_getitem xs i = Inr (xs ! nat i)"
  by (simp add: py_getitem_def)

text \<open>The shape of a Hyterce result, and its growth with the units.\<close>

lemma hyterce_shape:
  "\<exists>r. hyterce_calculator (Some prd) u m = Inr (Some r)
       \<and> h_pcpm r = (if m = 0 then 0 else of_int u / of_int m)
       \<and> h_incentive r = h_pcpm r * of_int (h_rate r)
       \<and> 0 \<le> h_rate r
       \<and> h_rate r =
           (case h_slab r of
              No_Incentive \<Rightarrow> 0
            | Slab_1 \<Rightarrow> (case prd of Syrup \<Rightarrow> 4 | Drops \<Rightarrow> 3)
            | Slab_2 \<Rightarrow> (case prd of Syrup \<Rightarrow> 6 | Drops \<Rightarrow> 4)
            | Slab_3 \<Rightarrow> (case prd of Syrup \<Rightarrow> 8 | Drops \<Rightarrow> 5))"
  by (cases prd) (simp_all add: hyterce_calculator_def py_truediv_def Let_def)

lemma hyterce_monotone:
  assumes "0 \<le> m" and "u1 \<le> u2"
  shows "\<exists>r1 r2. hyterce_calculator (Some prd) u1 m = Inr (Some r1)
           \<and> hyterce_calculator (Some prd) u2 m = Inr (Some r2)
           \<and> (h_slab r1 = h_slab r2 \<longrightarrow>
                h_rate r1 = h_rate r2 \<and> h_incentive r1 \<le> h_incentive r2)"
proof -
  obtain r1 where r1: "hyterce_calculator (Some prd) u1 m = Inr (Some r1)"
      "h_pcpm r1 = (if m = 0 then 0 else of_int u1 / of_int m)"
      "h_incentive r1 = h_pcpm r1 * of_int (h_rate r1)" "0 \<le> h_rate r1"
      "h_rate r1 =
           (case h_slab r1 of
              No_Incentive \<Rightarrow> 0
            | Slab_1 \<Rightarrow> (case prd of Syrup \<Rightarrow> 4 | Drops \<Rightarrow> 3)
            | Slab_2 \<Rightarrow> (case prd of Syrup \<Rightarrow> 6 | Drops \<Rightarrow> 4)
            | Slab_3 \<Rightarrow> (case prd of Syrup \<Rightarrow> 8 | Drops \<Rightarrow> 5))"
    using hyterce_shape [of prd u1 m] by blast
  obtain r2 where r2: "hyterce_calculator (Some prd) u2 m = Inr (Some r2)"
      "h_pcpm r2 = (if m = 0 then 0 else of_int u2 / of_int m)"
      "h_incentive r2 = h_pcpm r2 * of_int (h_rate r2)" "0 \<le> h_rate r2"
      "h_rate r2 =
           (case h_slab r2 of
              No_Incentive \<Rightarrow> 0
            | Slab_1 \<Rightarrow> (case prd of Syrup \<Rightarrow> 4 | Drops \<Rightarrow> 3)
            | Slab_2 \<Rightarrow> (case prd of Syrup \<Rightarrow> 6 | Drops \<Rightarrow> 4)
            | Slab_3 \<Rightarrow> (case prd of Syrup \<Rightarrow> 8 | Drops \<Rightarrow> 5))"
    using hyterce_shape [of prd u2 m] by blast
  have pcpm_le: "h_pcpm r1 \<le> h_pcpm r2"
    using assms r1(2) r2(2) by (simp add: divide_right_mono)
  have "h_rate r1 = h_rate r2 \<and> h_incentive r1 \<le> h_incentive r2"
    if same: "h_slab r1 = h_slab r2"
  proof -
    have rate: "h_rate r1 = h_rate r2"
      using r1(5) r2(5) same by simp
    have "h_pcpm r1 * of_int (h_rate r2) \<le> h_pcpm r2 * of_int (h_rate r2)"
      using pcpm_le r2(4) by (simp add: mult_right_mono)
    with rate r1(3) r2(3) show ?thesis by simp
  qed
  with r1(1) r2(1) show ?thesis by blast
qed

lemma hyterce_nonneg:
  assumes "0 \<le> u" and "0 \<le> m"
  shows "\<exists>res. hyterce_calculator product u m = Inr res
           \<and> (\<forall>r. res = Some r \<longrightarrow> 0 \<le> h_pcpm r \<and> 0 \<le> h_rate r \<and> 0 \<le> h_incentive r)"
proof (cases product)
  case None
  then show ?thesis by (simp add: hyterce_calculator_def)
next
  case (Some prd)
  obtain r where r: "hyterce_calculator (Some prd) u m = Inr (Some r)"
      "h_pcpm r = (if m = 0 then 0 else of_int u / of_int m)"
      "h_incentive r = h_pcpm r * of_int (h_rate r)" "0 \<le> h_rate r"
    using hyterce_shape [of prd u m] by blast
  have "0 \<le> h_pcpm r"
    using assms r(2) by simp
  with r Some show ?thesis by simp
qed

text \<open>The annual rule: sign and growth of multiplier and amount.\<close>

lemma mr_annual_multiplier_nonneg: "0 \<le> a_multiplier (mr_annual_incentive p a s)"
  by (simp add: mr_annual_incentive_def Let_def)

lemma mr_annual_amount: 
  "a_incentive (mr_annual_incentive p a s) = s * a_multiplier (mr_annual_incentive p a s)"
  by (simp add: mr_annual_incentive_def Let_def)

lemma mr_annual_multiplier_salary:
  "a_multiplier (mr_annual_incentive p a s1) = a_multiplier (mr_annual_incentive p a s2)"
  by (simp add: mr_annual_incentive_def Let_def)

lemma mr_annual_monotone:
  assumes "s1 \<le> s2"
  shows "a_incentive (mr_annual_incentive p a s1) \<le> a_incentive (mr_annual_incentive p a s2)"
proof -
  have "s1 * a_multiplier (mr_annual_incentive p a s2) \<le> s2 * a_multiplier (mr_annual_incentive p a s2)"
    using assms mr_annual_multiplier_nonneg [of p a s2] by (rule mult_right_mono)
  then show ?thesis
    by (simp add: mr_annual_amount mr_annual_multiplier_salary [of p a s1 s2])
qed

lemma mr_annual_multiplier_monotone:
  "a1 \<le> a2 \<Longrightarrow>
     a_multiplier (mr_annual_incentive p a1 s) \<le> a_multiplier (mr_annual_incentive p a2 s)"
  by (simp add: mr_annual_incentive_def Let_def)

lemma mr_annual_achievement_monotone:
  assumes "0 \<le> s" and "a1 \<le> a2"
  shows "a_incentive (mr_annual_incentive p a1 s) \<le> a_incentive (mr_annual_incentive p a2 s)"
  using mr_annual_multiplier_monotone [OF assms(2), of p s] assms(1)
  by (simp add: mr_annual_amount mult_left_mono)

lemma mr_annual_nonneg:
  "0 \<le> s \<Longrightarrow> 0 \<le> a_incentive (mr_annual_incentive p a s)"
  using mr_annual_multiplier_nonneg [of p a s] by (simp add: mr_annual_amount)

text \<open>The volume rule.\<close>

lemma lookup_rate_nonneg: "0 \<le> lookup_rate a g"
  by (cases g) (simp_all add: lookup_rate_def)

lemma lookup_rate_monotone: "a1 \<le> a2 \<Longrightarrow> lookup_rate a1 g \<le> lookup_rate a2 g"
  by (cases g) (simp_all add: lookup_rate_def)

lemma mr_volume_monotone:
  assumes "p \<noteq> 0" and "s1 \<le> s2"
  shows "\<exists>r1 r2. mr_volume_incentive (Some per) p a s1 = Some r1
           \<and> mr_volume_incentive (Some per) p a s2 = Some r2
           \<and> v_rate r1 = v_rate r2 \<and> v_incentive r1 \<le> v_incentive r2"
proof -
  from assms(1) obtain g where g: "group_of_pcpm p = Some g"
    using group_of_pcpm_Some [of p] by blast
  have "s1 * lookup_rate a g \<le> s2 * lookup_rate a g"
    using assms(2) lookup_rate_nonneg [of a g] by (rule mult_right_mono)
  then have "s1 * lookup_rate a g / 100 \<le> s2 * lookup_rate a g / 100"
    by (simp add: divide_right_mono)
  then show ?thesis
    using g by (simp add: mr_volume_incentive_def Let_def)
qed

lemma mr_volume_achievement_monotone:
  assumes "p \<noteq> 0" and "0 \<le> s" and "a1 \<le> a2"
  shows "\<exists>r1 r2. mr_volume_incentive (Some per) p a1 s = Some r1
           \<and> mr_volume_incentive (Some per) p a2 s = Some r2
           \<and> v_incentive r1 \<le> v_incentive r2"
proof -
  from assms(1) obtain g where g: "group_of_pcpm p = Some g"
    using group_of_pcpm_Some [of p] by blast
  have "s * lookup_rate a1 g \<le> s * lookup_rate a2 g"
    using lookup_rate_monotone [OF assms(3), of g] assms(2) by (rule mult_left_mono)
  then have "s * lookup_rate a1 g / 100 \<le> s * lookup_rate a2 g / 100"
    by (simp add: divide_right_mono)
  then show ?thesis
    using g by (simp add: mr_volume_incentive_def Let_def)
qed

lemma mr_volume_nonneg:
  assumes "0 \<le> s"
  shows "\<forall>r. mr_volume_incentive per p a s = Some r \<longrightarrow> 0 \<le> v_rate r \<and> 0 \<le> v_incentive r"
  using assms lookup_rate_nonneg
  by (auto simp: mr_volume_incentive_def Let_def split: option.splits)

text \<open>The two brand rules, for counts within the declared bounds.\<close>

lemma mr_brand_monotone:
  assumes "p \<noteq> 0" and "1 \<le> n1" and "n1 \<le> n2" and "n2 \<le> 11"
  shows "\<exists>g v1 v2. mr_brand_incentive p n1 = Inr (Some (g, v1))
           \<and> mr_brand_incentive p n2 = Inr (Some (g, v2)) \<and> v1 \<le> v2"
proof -
  from assms(1) obtain g where g: "group_of_pcpm p = Some g"
    using group_of_pcpm_Some [of p] by blast
  have "brand_amounts g ! nat n1 \<le> brand_amounts g ! nat n2"
    using assms sorted_brand_amounts [of g]
    by (intro sorted_nth_mono) (simp_all add: length_brand_amounts)
  then show ?thesis
    using g assms
    by (simp add: mr_brand_incentive_def py_getitem_in_range length_brand_amounts)
qed

lemma mr_quarterly_monotone:
  assumes "p \<noteq> 0" and "1 \<le> k1" and "k1 \<le> k2" and "k2 \<le> 4"
  shows "\<exists>g v1 v2. mr_quarterly_brand_incentive p k1 = Inr (Some (g, v1))
           \<and> mr_quarterly_brand_incentive p k2 = Inr (Some (g, v2)) \<and> v1 \<le> v2"
proof -
  from assms(1) obtain g where g: "group_of_pcpm p = Some g"
    using group_of_pcpm_Some [of p] by blast
  have "quarterly_amounts g ! nat k1 \<le> quarterly_amounts g ! nat k2"
    using assms sorted_quarterly_amounts [of g]
    by (intro sorted_nth_mono) (simp_all add: length_quarterly_amounts)
  then show ?thesis
    using g assms
    by (simp add: mr_quarterly_brand_incentive_def py_getitem_in_range length_quarterly_amounts)
qed

lemma mr_brand_nonneg:
  assumes "1 \<le> n" and "n \<le> 11"
  shows "\<exists>res. mr_brand_incentive p n = Inr res \<and> (\<forall>g v. res = Some (g, v) \<longrightarrow> 0 \<le> v)"
proof (cases "group_of_pcpm p")
  case None
  then show ?thesis by (simp add: mr_brand_incentive_def)
next
  case (Some g)
  have "nat n < length (brand_amounts g)"
    using assms by (simp add: length_brand_amounts)
  then have "0 \<le> brand_amounts g ! nat n"
    using brand_amounts_nonneg [of g] nth_mem by blast
  then show ?thesis
    using Some assms
    by (simp add: mr_brand_incentive_def py_getitem_in_range length_brand_amounts)
qed

lemma mr_quarterly_nonneg:
  assumes "1 \<le> k" and "k \<le> 4"
  shows "\<exists>res. mr_quarterly_brand_incentive p k = Inr res
           \<and> (\<forall>g v. res = Some (g, v) \<longrightarrow> 0 \<le> v)"
proof (cases "group_of_pcpm p")
  case None
  then show ?thesis by (simp add: mr_quarterly_brand_incentive_def)
next
  case (Some g)
  have "nat k < length (quarterly_amounts g)"
    using assms by (simp add: length_quarterly_amounts)
  then have "0 \<le> quarterly_amounts g ! nat k"
    using quarterly_amounts_nonneg [of g] nth_mem by blast
  then show ?thesis
    using Some assms
    by (simp add: mr_quarterly_brand_incentive_def py_getitem_in_range
        length_quarterly_amounts)
qed

text \<open>The manager rule with a team that is not empty.\<close>

lemma manager_shape:
  assumes "n \<noteq> 0"
  shows "\<exists>r. manager_incentive th hm a pool n pct =
              Inr (r, if th \<le> pct then Some (pool / of_int n) else None)
          \<and> m_eligible r = (th \<le> pct)
          \<and> m_multiplier r =
              (if th \<le> pct then (if 100 \<le> a then hm else if 95 \<le> a then 1 else 0) else 0)
          \<and> m_incentive r = (if 0 < m_multiplier r then pool / of_int n * m_multiplier r else 0)"
  using assms
  by (simp add: manager_incentive_def manager_amount_def average_mr_incentive_def
      py_truediv_def Let_def)

lemma manager_monotone:
  assumes "1 \<le> n" and "pool1 \<le> pool2"
  shows "\<exists>r1 r2 s1 s2. manager_incentive th hm a pool1 n pct = Inr (r1, s1)
           \<and> manager_incentive th hm a pool2 n pct = Inr (r2, s2)
           \<and> m_multiplier r1 = m_multiplier r2 \<and> m_incentive r1 \<le> m_incentive r2"
proof -
  from assms(1) have n: "n \<noteq> 0" and npos: "(0::rat) \<le> of_int n" by simp_all
  obtain r1 where r1: "manager_incentive th hm a pool1 n pct =
              Inr (r1, if th \<le> pct then Some (pool1 / of_int n) else None)"
      "m_multiplier r1 =
              (if th \<le> pct then (if 100 \<le> a then hm else if 95 \<le> a then 1 else 0) else 0)"
      "m_incentive r1 = (if 0 < m_multiplier r1 then pool1 / of_int n * m_multiplier r1 else 0)"
    using manager_shape [OF n, of th hm a pool1 pct] by blast
  obtain r2 where r2: "manager_incentive th hm a pool2 n pct =
              Inr (r2, if th \<le> pct then Some (pool2 / of_int n) else None)"
      "m_multiplier r2 =
              (if th \<le> pct then (if 100 \<le> a then hm else if 95 \<le> a then 1 else 0) else 0)"
      "m_incentive r2 = (if 0 < m_multiplier r2 then pool2 / of_int n * m_multiplier r2 else 0)"
    using manager_shape [OF n, of th hm a pool2 pct] by blast
  have mult: "m_multiplier r1 = m_multiplier r2"
    using r1(2) r2(2) by simp
  have avg: "pool1 / of_int n \<le> pool2 / of_int n"
    using assms(2) npos by (rule divide_right_mono)
  have "m_incentive r1 \<le> m_incentive r2"
  proof (cases "0 < m_multiplier r2")
    case True
    then have "0 \<le> m_multiplier r2" by simp
    with avg have "pool1 / of_int n * m_multiplier r2 \<le> pool2 / of_int n * m_multiplier r2"
      by (rule mult_right_mono)
    with True mult r1(3) r2(3) show ?thesis by simp
  next
    case False
    with mult r1(3) r2(3) show ?thesis by simp
  qed
  with mult r1(1) r2(1) show ?thesis by blast
qed

lemma role_achievement_monotone:
  assumes "1 \<le> n" and "0 \<le> pool" and "a1 \<le> a2"
  shows "\<exists>r1 r2 s1 s2. role_incentive role a1 pool n pct = Inr (r1, s1)
           \<and> role_incentive role a2 pool n pct = Inr (r2, s2)
           \<and> m_incentive r1 \<le> m_incentive r2"
proof -
  from assms(1) have n: "n \<noteq> 0" and npos: "(0::rat) < of_int n" by simp_all
  let ?th = "role_threshold role" and ?hm = "role_high_multiplier role"
  have hm: "1 \<le> ?hm"
    by (cases role) (simp_all add: role_high_multiplier_def)
  obtain r1 where r1: "manager_incentive ?th ?hm a1 pool n pct =
              Inr (r1, if ?th \<le> pct then Some (pool / of_int n) else None)"
      "m_multiplier r1 =
              (if ?th \<le> pct then (if 100 \<le> a1 then ?hm else if 95 \<le> a1 then 1 else 0) else 0)"
      "m_incentive r1 = (if 0 < m_multiplier r1 then pool / of_int n * m_multiplier r1 else 0)"
    using manager_shape [OF n, of ?th ?hm a1 pool pct] by blast
  obtain r2 where r2: "manager_incentive ?th ?hm a2 pool n pct =
              Inr (r2, if ?th \<le> pct then Some (pool / of_int n) else None)"
      "m_multiplier r2 =
              (if ?th \<le> pct then (if 100 \<le> a2 then ?hm else if 95 \<le> a2 then 1 else 0) else 0)"
      "m_incentive r2 = (if 0 < m_multiplier r2 then pool / of_int n * m_multiplier r2 else 0)"
    using manager_shape [OF n, of ?th ?hm a2 pool pct] by blast
  have avg: "0 \<le> pool / of_int n"
    using assms(2) npos by simp
  have nonneg: "0 \<le> m_multiplier r1" "0 \<le> m_multiplier r2"
    using r1(2) r2(2) hm by auto
  have mult: "m_multiplier r1 \<le> m_multiplier r2"
    using r1(2) r2(2) hm assms(3) by auto
  have i1: "m_incentive r1 = pool / of_int n * m_multiplier r1"
    using r1(3) nonneg(1) by (cases "m_multiplier r1 = 0") auto
  have i2: "m_incentive r2 = pool / of_int n * m_multiplier r2"
    using r2(3) nonneg(2) by (cases "m_multiplier r2 = 0") auto
  have "m_incentive r1 \<le> m_incentive r2"
    unfolding i1 i2 using mult avg by (rule mult_left_mono)
  with r1(1) r2(1) show ?thesis
    unfolding role_incentive_def by blast
qed

lemma role_nonneg:
  assumes "1 \<le> n" and "0 \<le> pool"
  shows "\<exists>r s. role_incentive role a pool n pct = Inr (r, s)
           \<and> 0 \<le> m_multiplier r \<and> 0 \<le> m_incentive r"
proof -
  from assms(1) have n: "n \<noteq> 0" and npos: "(0::rat) < of_int n" by simp_all
  let ?th = "role_threshold role" and ?hm = "role_high_multiplier role"
  have hm: "0 \<le> ?hm"
    by (cases role) (simp_all add: role_high_multiplier_def)
  obtain r where r: "manager_incentive ?th ?hm a pool n pct =
              Inr (r, if ?th \<le> pct then Some (pool / of_int n) else None)"
      "m_multiplier r =
              (if ?th \<le> pct then (if 100 \<le> a then ?hm else if 95 \<le> a then 1 else 0) else 0)"
      "m_incentive r = (if 0 < m_multiplier r then pool / of_int n * m_multiplier r else 0)"
    using manager_shape [OF n, of ?th ?hm a pool pct] by blast
  have mult: "0 \<le> m_multiplier r"
    using r(2) hm by simp
  have "0 \<le> pool / of_int n"
    using assms(2) npos by simp
  then have "0 \<le> pool / of_int n * m_multiplier r"
    using mult by (rule mult_nonneg_nonneg)
  with r(3) have "0 \<le> m_incentive r" by simp
  with mult r(1) show ?thesis
    unfolding role_incentive_def by blast
qed

text \<open>
  The guards against a zero divisor: the one of line 109 covers the only division of the
  Hyterce rule; the one of line 435 covers the division behind the amount, and the rule
  as a whole divides by zero exactly for an eligible role with a team of size 0.
\<close>

lemma hyterce_no_zero_division:
  "hyterce_calculator product units months \<noteq> Inl ZeroDivisionError"
  by (cases product) (simp_all add: hyterce_calculator_def py_truediv_def Let_def)

lemma hyterce_zero_months:
  "hyterce_calculator (Some prd) units 0 =
     Inr (Some \<lparr>h_pcpm = 0, h_slab = No_Incentive, h_rate = 0, h_incentive = 0\<rparr>)"
  by (simp add: hyterce_calculator_def Let_def)

lemma manager_amount_no_zero_division:
  "manager_amount th hm a pool n pct \<noteq> Inl ZeroDivisionError"
  by (simp add: manager_amount_def average_mr_incentive_def py_truediv_def Let_def)

lemma manager_incentive_raises_iff:
  "manager_incentive th hm a pool n pct = Inl ZeroDivisionError \<longleftrightarrow> n = 0 \<and> th \<le> pct"
  by (auto simp: manager_incentive_def manager_amount_def average_mr_incentive_def
      py_truediv_def Let_def split: if_splits)

text \<open>Resplash.\<close>

lemma resplash_monotone:
  assumes "b < c1" and "c1 \<le> c2"
  shows "\<exists>r1 r2. resplash_incentive b c1 = Some r1 \<and> resplash_incentive b c2 = Some r2
           \<and> (r_slab r1 = r_slab r2 \<longrightarrow>
                r_rate r1 = r_rate r2 \<and> r_precision_incentive r1 \<le> r_precision_incentive r2)"
  using assms
  by (auto simp: resplash_incentive_def Let_def)

lemma resplash_nonneg:
  "\<forall>r. resplash_incentive b c = Some r \<longrightarrow> 0 \<le> r_rate r \<and> 0 \<le> r_precision_incentive r"
  by (auto simp: resplash_incentive_def Let_def split: if_splits)

subsection \<open>The claims\<close>

text \<open>
  C1. In both brand rules an out-of-range count is rejected at the input boundary and the
  lookup itself does not clamp. For every PCPM and every count entered: a count outside
  1 to 11 (Eminent 11) or 1 to 4 (quarterly) is refused by the widget and reaches no
  lookup; a count the widget accepts is an index within the table of its group (of length
  12, of length 5) and the lookup returns the entry at the count; so for no count does a
  lookup leave the table. The bound is the widget's alone: lines 327--328 and 377 take the
  value handed over as the index as it is, and on a count beyond the bound they would
  raise \<^verbatim>\<open>IndexError\<close>.
\<close>

theorem brand_lookup_in_bounds:
  "(\<forall>e. mr_brand_incentive_entered pcpm n \<noteq> Accepted (Inl e))
   \<and> (n < 1 \<or> 11 < n \<longrightarrow> mr_brand_incentive_entered pcpm n = Refused)
   \<and> (1 \<le> n \<and> n \<le> 11 \<and> group_of_pcpm pcpm = Some g \<longrightarrow>
        0 \<le> n \<and> n < int (length (brand_amounts g))
        \<and> mr_brand_incentive_entered pcpm n =
            Accepted (Inr (Some (g, brand_amounts g ! nat n))))
   \<and> (\<forall>e. mr_quarterly_brand_incentive_entered pcpm k \<noteq> Accepted (Inl e))
   \<and> (k < 1 \<or> 4 < k \<longrightarrow> mr_quarterly_brand_incentive_entered pcpm k = Refused)
   \<and> (1 \<le> k \<and> k \<le> 4 \<and> group_of_pcpm pcpm = Some g \<longrightarrow>
        0 \<le> k \<and> k < int (length (quarterly_amounts g))
        \<and> mr_quarterly_brand_incentive_entered pcpm k =
            Accepted (Inr (Some (g, quarterly_amounts g ! nat k))))
   \<and> length (brand_amounts g) = 12 \<and> length (quarterly_amounts g) = 5
   \<and> (11 < n \<and> group_of_pcpm pcpm = Some g \<longrightarrow>
        mr_brand_incentive pcpm n = Inl IndexError)
   \<and> (4 < k \<and> group_of_pcpm pcpm = Some g \<longrightarrow>
        mr_quarterly_brand_incentive pcpm k = Inl IndexError)"
proof -
  have brand_bare: "mr_brand_incentive pcpm n = Inl IndexError"
    if "11 < n \<and> group_of_pcpm pcpm = Some g"
    using that by (simp add: mr_brand_incentive_def py_getitem_def length_brand_amounts)
  have quart_bare: "mr_quarterly_brand_incentive pcpm k = Inl IndexError"
    if "4 < k \<and> group_of_pcpm pcpm = Some g"
    using that
    by (simp add: mr_quarterly_brand_incentive_def py_getitem_def length_quarterly_amounts)
  have brand: "\<forall>e. mr_brand_incentive_entered pcpm n \<noteq> Accepted (Inl e)"
    by (cases "group_of_pcpm pcpm")
       (simp_all add: mr_brand_incentive_entered_def number_input_def mr_brand_incentive_def
          py_getitem_in_range length_brand_amounts)
  have brand_out: "mr_brand_incentive_entered pcpm n = Refused" if "n < 1 \<or> 11 < n"
    using that by (auto simp: mr_brand_incentive_entered_def number_input_def)
  have brand_in: "0 \<le> n \<and> n < int (length (brand_amounts g))
        \<and> mr_brand_incentive_entered pcpm n =
            Accepted (Inr (Some (g, brand_amounts g ! nat n)))"
    if "1 \<le> n \<and> n \<le> 11 \<and> group_of_pcpm pcpm = Some g"
    using that
    by (simp add: mr_brand_incentive_entered_def number_input_def mr_brand_incentive_def
        py_getitem_in_range length_brand_amounts)
  have quart: "\<forall>e. mr_quarterly_brand_incentive_entered pcpm k \<noteq> Accepted (Inl e)"
    by (cases "group_of_pcpm pcpm")
       (simp_all add: mr_quarterly_brand_incentive_entered_def number_input_def
          mr_quarterly_brand_incentive_def py_getitem_in_range length_quarterly_amounts)
  have quart_out: "mr_quarterly_brand_incentive_entered pcpm k = Refused" if "k < 1 \<or> 4 < k"
    using that by (auto simp: mr_quarterly_brand_incentive_entered_def number_input_def)
  have quart_in: "0 \<le> k \<and> k < int (length (quarterly_amounts g))
        \<and> mr_quarterly_brand_incentive_entered pcpm k =
            Accepted (Inr (Some (g, quarterly_amounts g ! nat k)))"
    if "1 \<le> k \<and> k \<le> 4 \<and> group_of_pcpm pcpm = Some g"
    using that
    by (simp add: mr_quarterly_brand_incentive_entered_def number_input_def
        mr_quarterly_brand_incentive_def py_getitem_in_range length_quarterly_amounts)
  from brand brand_out brand_in quart quart_out quart_in brand_bare quart_bare
    length_brand_amounts [of g] length_quarterly_amounts [of g]
  show ?thesis by (intro conjI impI) blast+
qed

theorem brand_lookup_in_bounds_witness:
  "mr_brand_incentive_entered 2 11 = Accepted (Inr (Some (Group_B, 16500)))
   \<and> mr_quarterly_brand_incentive_entered 2 4 = Accepted (Inr (Some (Group_B, 3000)))
   \<and> mr_brand_incentive_entered 2 12 = Refused
   \<and> mr_quarterly_brand_incentive_entered 2 5 = Refused
   \<and> mr_brand_incentive 2 12 = Inl IndexError
   \<and> mr_quarterly_brand_incentive 2 5 = Inl IndexError"
proof -
  have g: "group_of_pcpm 2 = Some Group_B"
    by (simp add: group_of_pcpm_def)
  show ?thesis
    using g brand_lookup_in_bounds [of 2 11 Group_B 4]
      brand_lookup_in_bounds [of 2 12 Group_B 5]
    by (simp add: brand_amounts_def quarterly_amounts_def)
qed

text \<open>
  C2. For every non-negative PCPM the group is undefined at 0, A on (0, 1.5), B on
  [1.5, 2.5), C on [2.5, 4.0) and D from 4.0 on; the boundaries 1.5 and 4.0 belong to the
  upper group.
\<close>

theorem group_of_pcpm_intervals:
  assumes "0 \<le> p"
  shows "(p = 0 \<longrightarrow> group_of_pcpm p = None)
       \<and> (0 < p \<and> p < 1.5 \<longrightarrow> group_of_pcpm p = Some Group_A)
       \<and> (1.5 \<le> p \<and> p < 2.5 \<longrightarrow> group_of_pcpm p = Some Group_B)
       \<and> (2.5 \<le> p \<and> p < 4.0 \<longrightarrow> group_of_pcpm p = Some Group_C)
       \<and> (4.0 \<le> p \<longrightarrow> group_of_pcpm p = Some Group_D)
       \<and> group_of_pcpm 1.5 = Some Group_B
       \<and> group_of_pcpm 4.0 = Some Group_D
       \<and> group_of_pcpm p \<in> {None, Some Group_A, Some Group_B, Some Group_C, Some Group_D}"
  using assms by (auto simp: group_of_pcpm_def)

theorem group_of_pcpm_intervals_witness:
  "(0::rat) \<le> 1.5 \<and> group_of_pcpm 1.5 = Some Group_B \<and> group_of_pcpm 4.0 = Some Group_D"
  using group_of_pcpm_intervals [of "1.5"] by simp

text \<open>
  C3. With a product selected, non-negative units and 1 to 3 months, the Hyterce
  calculator returns PCPM = units / months, no slab and rate 0 below 200, Slab 1 on
  [200, 400), Slab 2 on [400, 600), Slab 3 from 600 on, the rates 4/6/8 for Syrup and
  3/4/5 for Drops, and the amount PCPM times rate; 2100 units of Syrup over 3 months give
  PCPM 700, Slab 3, rate 8 and amount 5600.
\<close>

theorem hyterce_slabs:
  assumes "0 \<le> units" and "1 \<le> months" and "months \<le> 3"
  shows "(\<exists>r. hyterce_calculator (Some prd) units months = Inr (Some r)
           \<and> h_pcpm r = of_int units / of_int months
           \<and> (h_pcpm r < 200 \<longrightarrow> h_slab r = No_Incentive \<and> h_rate r = 0)
           \<and> (200 \<le> h_pcpm r \<and> h_pcpm r < 400 \<longrightarrow>
                h_slab r = Slab_1 \<and> h_rate r = (case prd of Syrup \<Rightarrow> 4 | Drops \<Rightarrow> 3))
           \<and> (400 \<le> h_pcpm r \<and> h_pcpm r < 600 \<longrightarrow>
                h_slab r = Slab_2 \<and> h_rate r = (case prd of Syrup \<Rightarrow> 6 | Drops \<Rightarrow> 4))
           \<and> (600 \<le> h_pcpm r \<longrightarrow>
                h_slab r = Slab_3 \<and> h_rate r = (case prd of Syrup \<Rightarrow> 8 | Drops \<Rightarrow> 5))
           \<and> h_incentive r = h_pcpm r * of_int (h_rate r))
       \<and> hyterce_calculator (Some Syrup) 2100 3 =
           Inr (Some \<lparr>h_pcpm = 700, h_slab = Slab_3, h_rate = 8, h_incentive = 5600\<rparr>)"
  using assms
  by (cases prd) (simp_all add: hyterce_calculator_def py_truediv_def Let_def)

theorem hyterce_slabs_witness:
  "\<exists>r. hyterce_calculator (Some Drops) 900 2 = Inr (Some r)
       \<and> h_pcpm r = 450 \<and> h_slab r = Slab_2 \<and> h_rate r = 4 \<and> h_incentive r = 1800"
  using hyterce_slabs [of 900 2 Drops] by auto

text \<open>
  C4. For a positive PCPM the annual rule has a group, its amount is salary times
  multiplier, and the multiplier is 1.0/1.1/1.25/1.5 (groups A to D) from 110 percent on,
  0.75/0.8/0.9/1.0 on [105, 110) and 0 below 105, where the amount is 0. PCPM 1.2 with
  salary 50000 gives 50000 at 112 percent and 0 at 104 percent.
\<close>

theorem mr_annual_table:
  assumes "0 < p"
  shows "(\<exists>g. group_of_pcpm p = Some g
           \<and> a_group (mr_annual_incentive p a s) = Some g
           \<and> a_incentive (mr_annual_incentive p a s) = s * a_multiplier (mr_annual_incentive p a s)
           \<and> (110 \<le> a \<longrightarrow> a_multiplier (mr_annual_incentive p a s) =
                (case g of Group_A \<Rightarrow> 1.0 | Group_B \<Rightarrow> 1.1 | Group_C \<Rightarrow> 1.25 | Group_D \<Rightarrow> 1.5))
           \<and> (105 \<le> a \<and> a < 110 \<longrightarrow> a_multiplier (mr_annual_incentive p a s) =
                (case g of Group_A \<Rightarrow> 0.75 | Group_B \<Rightarrow> 0.8 | Group_C \<Rightarrow> 0.9 | Group_D \<Rightarrow> 1.0))
           \<and> (a < 105 \<longrightarrow> a_multiplier (mr_annual_incentive p a s) = 0
                \<and> a_incentive (mr_annual_incentive p a s) = 0))
       \<and> a_group (mr_annual_incentive 1.2 112 50000) = Some Group_A
       \<and> a_incentive (mr_annual_incentive 1.2 112 50000) = 50000
       \<and> a_incentive (mr_annual_incentive 1.2 104 50000) = 0"
  using assms
  by (auto simp: mr_annual_incentive_def group_of_pcpm_def Let_def)

theorem mr_annual_table_witness:
  "a_multiplier (mr_annual_incentive 3 107 40000) = 0.9
   \<and> a_incentive (mr_annual_incentive 3 107 40000) = 36000"
  using mr_annual_table [of 3 107 40000]
  by (auto simp: group_of_pcpm_def)

text \<open>
  C5. For a non-negative PCPM the volume rule produces a result exactly when a period is
  selected and the PCPM is positive; Quarter and Annual give the same result; the amount is
  sale times rate over 100, with the rate (percent, groups A to D) 0.75/0.90/1.00/1.20 from
  110 percent on, 0.62/0.70/0.87/1.00 on [105, 110), 0.50/0.60/0.75/0.80 on [100, 105),
  0.25/0.30/0.35/0.40 on [95, 100) and 0 below 95. PCPM 3.0 at 101 percent with a sale of
  1000000 gives rate 0.75 and amount 7500.
\<close>

theorem mr_volume_table:
  assumes "0 \<le> p"
  shows "(mr_volume_incentive per p a s \<noteq> None \<longleftrightarrow> per \<noteq> None \<and> 0 < p)
       \<and> mr_volume_incentive (Some Quarter) p a s = mr_volume_incentive (Some Annual) p a s
       \<and> (per \<noteq> None \<and> 0 < p \<longrightarrow>
            (\<exists>g r. group_of_pcpm p = Some g
               \<and> mr_volume_incentive per p a s = Some r
               \<and> v_group r = g
               \<and> v_incentive r = s * v_rate r / 100
               \<and> (110 \<le> a \<longrightarrow> v_rate r =
                    (case g of Group_A \<Rightarrow> 0.75 | Group_B \<Rightarrow> 0.90 | Group_C \<Rightarrow> 1.00 | Group_D \<Rightarrow> 1.20))
               \<and> (105 \<le> a \<and> a < 110 \<longrightarrow> v_rate r =
                    (case g of Group_A \<Rightarrow> 0.62 | Group_B \<Rightarrow> 0.70 | Group_C \<Rightarrow> 0.87 | Group_D \<Rightarrow> 1.00))
               \<and> (100 \<le> a \<and> a < 105 \<longrightarrow> v_rate r =
                    (case g of Group_A \<Rightarrow> 0.50 | Group_B \<Rightarrow> 0.60 | Group_C \<Rightarrow> 0.75 | Group_D \<Rightarrow> 0.80))
               \<and> (95 \<le> a \<and> a < 100 \<longrightarrow> v_rate r =
                    (case g of Group_A \<Rightarrow> 0.25 | Group_B \<Rightarrow> 0.30 | Group_C \<Rightarrow> 0.35 | Group_D \<Rightarrow> 0.40))
               \<and> (a < 95 \<longrightarrow> v_rate r = 0 \<and> v_incentive r = 0)))
       \<and> mr_volume_incentive (Some Quarter) 3.0 101 1000000 =
           Some \<lparr>v_group = Group_C, v_rate = 0.75, v_incentive = 7500\<rparr>"
proof -
  have produced: "mr_volume_incentive per p a s \<noteq> None \<longleftrightarrow> per \<noteq> None \<and> 0 < p"
    using assms
    by (cases per) (auto simp: mr_volume_incentive_def Let_def group_of_pcpm_def)
  have same: "mr_volume_incentive (Some Quarter) p a s = mr_volume_incentive (Some Annual) p a s"
    by (simp add: mr_volume_incentive_def)
  have example: "mr_volume_incentive (Some Quarter) 3.0 101 1000000 =
      Some \<lparr>v_group = Group_C, v_rate = 0.75, v_incentive = 7500\<rparr>"
    by (simp add: mr_volume_incentive_def lookup_rate_def Let_def group_of_pcpm_def)
  have table: "\<exists>g r. group_of_pcpm p = Some g
               \<and> mr_volume_incentive per p a s = Some r
               \<and> v_group r = g
               \<and> v_incentive r = s * v_rate r / 100
               \<and> (110 \<le> a \<longrightarrow> v_rate r =
                    (case g of Group_A \<Rightarrow> 0.75 | Group_B \<Rightarrow> 0.90 | Group_C \<Rightarrow> 1.00 | Group_D \<Rightarrow> 1.20))
               \<and> (105 \<le> a \<and> a < 110 \<longrightarrow> v_rate r =
                    (case g of Group_A \<Rightarrow> 0.62 | Group_B \<Rightarrow> 0.70 | Group_C \<Rightarrow> 0.87 | Group_D \<Rightarrow> 1.00))
               \<and> (100 \<le> a \<and> a < 105 \<longrightarrow> v_rate r =
                    (case g of Group_A \<Rightarrow> 0.50 | Group_B \<Rightarrow> 0.60 | Group_C \<Rightarrow> 0.75 | Group_D \<Rightarrow> 0.80))
               \<and> (95 \<le> a \<and> a < 100 \<longrightarrow> v_rate r =
                    (case g of Group_A \<Rightarrow> 0.25 | Group_B \<Rightarrow> 0.30 | Group_C \<Rightarrow> 0.35 | Group_D \<Rightarrow> 0.40))
               \<and> (a < 95 \<longrightarrow> v_rate r = 0 \<and> v_incentive r = 0)"
    if sel: "per \<noteq> None" and pos: "0 < p"
  proof -
    from pos obtain g where g: "group_of_pcpm p = Some g"
      using group_of_pcpm_Some [of p] by auto
    from sel obtain q where q: "per = Some q" by auto
    show ?thesis
      unfolding q g mr_volume_incentive_def
      by (cases g) (simp_all add: lookup_rate_def Let_def)
  qed
  from produced same example table show ?thesis by blast
qed

theorem mr_volume_table_witness:
  "mr_volume_incentive (Some Annual) 2 96 200000 =
     Some \<lparr>v_group = Group_B, v_rate = 0.30, v_incentive = 600\<rparr>"
  using mr_volume_table [of 2 "Some Annual" 96 200000]
  by (auto simp: group_of_pcpm_def)

text \<open>
  C6. For each of the three roles of \<^verbatim>\<open>main\<close> (ASM 60 and 1.5, RSM/BM 50 and 1.3, ZBM 40
  and 1.2) and a team of at least one: the role is eligible exactly when the percentage
  of earning MRs reaches the threshold; an ineligible role gets 0; an eligible one gets
  the multiplier of its role from 100 percent achievement on, 1.0 on [95, 100) and 0
  below, and the amount pool / team size times multiplier. For ASM, 59 percent gives 0, and
  65 percent with achievement 100, pool 300000 and a team of 10 gives 45000.
\<close>

theorem manager_roles:
  assumes "1 \<le> n"
  shows "(\<exists>r shown. role_incentive role a pool n pct = Inr (r, shown)
           \<and> (m_eligible r \<longleftrightarrow> role_threshold role \<le> pct)
           \<and> (\<not> m_eligible r \<longrightarrow> m_incentive r = 0)
           \<and> (m_eligible r \<longrightarrow>
                m_multiplier r =
                  (if 100 \<le> a then role_high_multiplier role else if 95 \<le> a then 1.0 else 0)
                \<and> m_incentive r = pool / of_int n * m_multiplier r)
           \<and> (role = ASM \<and> pct = 59 \<longrightarrow> \<not> m_eligible r \<and> m_incentive r = 0))
       \<and> role_threshold ASM = 60 \<and> role_high_multiplier ASM = 1.5
       \<and> role_threshold RSM_BM = 50 \<and> role_high_multiplier RSM_BM = 1.3
       \<and> role_threshold ZBM = 40 \<and> role_high_multiplier ZBM = 1.2
       \<and> role_incentive ASM 100 300000 10 65 =
           Inr (\<lparr>m_eligible = True, m_multiplier = 1.5, m_incentive = 45000\<rparr>, Some 30000)"
  using assms
  by (cases role)
     (auto simp: role_incentive_def manager_incentive_def manager_amount_def
        average_mr_incentive_def py_truediv_def role_threshold_def role_high_multiplier_def
        Let_def)

theorem manager_roles_witness:
  "\<exists>r shown. role_incentive ZBM 97 80000 4 40 = Inr (r, shown)
       \<and> m_eligible r \<and> m_multiplier r = 1 \<and> m_incentive r = 20000"
  using manager_roles [of 4 ZBM 97 80000 40]
  by (auto simp: role_threshold_def)

text \<open>
  C7. For non-negative base and current units, with incremental = max(current - base, 0):
  no result when it is 0; otherwise no slab and rate 0 below 1500, Aspire 0.75 on
  [1500, 3000), Eminence 1.00 on [3000, 4500), Pinnacle 1.25 on [4500, 6000), Summit 1.50
  from 6000 on, the precision amount incremental times rate, and excellence eligibility
  exactly from 7500 incremental units on. Base 1000 and current 3200 give 2200, Aspire,
  0.75, 1650 and no excellence eligibility.
\<close>

theorem resplash_slabs:
  assumes "0 \<le> b" and "0 \<le> c"
  shows "(max (c - b) 0 = 0 \<longrightarrow> resplash_incentive b c = None)
       \<and> (max (c - b) 0 \<noteq> 0 \<longrightarrow>
            (\<exists>r. resplash_incentive b c = Some r
               \<and> r_incremental_units r = max (c - b) 0
               \<and> (r_incremental_units r < 1500 \<longrightarrow> r_slab r = No_Slab \<and> r_rate r = 0)
               \<and> (1500 \<le> r_incremental_units r \<and> r_incremental_units r < 3000 \<longrightarrow>
                    r_slab r = Aspire \<and> r_rate r = 0.75)
               \<and> (3000 \<le> r_incremental_units r \<and> r_incremental_units r < 4500 \<longrightarrow>
                    r_slab r = Eminence \<and> r_rate r = 1.00)
               \<and> (4500 \<le> r_incremental_units r \<and> r_incremental_units r < 6000 \<longrightarrow>
                    r_slab r = Pinnacle \<and> r_rate r = 1.25)
               \<and> (6000 \<le> r_incremental_units r \<longrightarrow> r_slab r = Summit \<and> r_rate r = 1.50)
               \<and> r_precision_incentive r = of_int (r_incremental_units r) * r_rate r
               \<and> (r_excellence_eligible r \<longleftrightarrow> 7500 \<le> r_incremental_units r)))
       \<and> resplash_incentive 1000 3200 =
           Some \<lparr>r_incremental_units = 2200, r_slab = Aspire, r_rate = 0.75,
                 r_precision_incentive = 1650, r_excellence_eligible = False\<rparr>"
  by (auto simp: resplash_incentive_def Let_def)

theorem resplash_slabs_witness:
  "\<exists>r. resplash_incentive 500 8500 = Some r
       \<and> r_incremental_units r = 8000 \<and> r_slab r = Summit \<and> r_rate r = 1.5
       \<and> r_precision_incentive r = 12000 \<and> r_excellence_eligible r"
  using resplash_slabs [of 500 8500] by auto


text \<open>
  C9. With the parameters that select the slab, band or group held fixed, the amount of
  every rule is non-decreasing in its driving quantity: the Hyterce amount in the units
  (same slab, hence same rate), the annual amount in the salary, the volume amount in the
  sale, both flat brand amounts in the count, the manager amount in the pool (same
  multiplier), the Resplash precision amount in the current units (same slab). The amounts
  of the annual, volume and manager rules are non-decreasing in the achievement as well,
  for a non-negative salary, sale and pool.
\<close>

theorem amounts_monotone:
  "(0 \<le> months \<and> ua \<le> ub \<longrightarrow>
      (\<exists>r1 r2. hyterce_calculator (Some prd) ua months = Inr (Some r1)
         \<and> hyterce_calculator (Some prd) ub months = Inr (Some r2)
         \<and> (h_slab r1 = h_slab r2 \<longrightarrow>
              h_rate r1 = h_rate r2 \<and> h_incentive r1 \<le> h_incentive r2)))
   \<and> (sa \<le> sb \<longrightarrow>
        a_multiplier (mr_annual_incentive p a sa) = a_multiplier (mr_annual_incentive p a sb)
        \<and> a_incentive (mr_annual_incentive p a sa) \<le> a_incentive (mr_annual_incentive p a sb))
   \<and> (p \<noteq> 0 \<and> va \<le> vb \<longrightarrow>
        (\<exists>r1 r2. mr_volume_incentive (Some per) p a va = Some r1
           \<and> mr_volume_incentive (Some per) p a vb = Some r2
           \<and> v_rate r1 = v_rate r2 \<and> v_incentive r1 \<le> v_incentive r2))
   \<and> (p \<noteq> 0 \<and> 1 \<le> na \<and> na \<le> nb \<and> nb \<le> 11 \<longrightarrow>
        (\<exists>g v1 v2. mr_brand_incentive p na = Inr (Some (g, v1))
           \<and> mr_brand_incentive p nb = Inr (Some (g, v2)) \<and> v1 \<le> v2))
   \<and> (p \<noteq> 0 \<and> 1 \<le> ka \<and> ka \<le> kb \<and> kb \<le> 4 \<longrightarrow>
        (\<exists>g v1 v2. mr_quarterly_brand_incentive p ka = Inr (Some (g, v1))
           \<and> mr_quarterly_brand_incentive p kb = Inr (Some (g, v2)) \<and> v1 \<le> v2))
   \<and> (1 \<le> team \<and> poola \<le> poolb \<longrightarrow>
        (\<exists>r1 r2 s1 s2. manager_incentive th hm a poola team pct = Inr (r1, s1)
           \<and> manager_incentive th hm a poolb team pct = Inr (r2, s2)
           \<and> m_multiplier r1 = m_multiplier r2 \<and> m_incentive r1 \<le> m_incentive r2))
   \<and> (b < ca \<and> ca \<le> cb \<longrightarrow>
        (\<exists>r1 r2. resplash_incentive b ca = Some r1 \<and> resplash_incentive b cb = Some r2
           \<and> (r_slab r1 = r_slab r2 \<longrightarrow>
                r_rate r1 = r_rate r2
                \<and> r_precision_incentive r1 \<le> r_precision_incentive r2)))
   \<and> (0 \<le> sa \<and> a \<le> a' \<longrightarrow>
        a_incentive (mr_annual_incentive p a sa) \<le> a_incentive (mr_annual_incentive p a' sa))
   \<and> (p \<noteq> 0 \<and> 0 \<le> va \<and> a \<le> a' \<longrightarrow>
        (\<exists>r1 r2. mr_volume_incentive (Some per) p a va = Some r1
           \<and> mr_volume_incentive (Some per) p a' va = Some r2
           \<and> v_incentive r1 \<le> v_incentive r2))
   \<and> (1 \<le> team \<and> 0 \<le> poola \<and> a \<le> a' \<longrightarrow>
        (\<exists>r1 r2 s1 s2. role_incentive role a poola team pct = Inr (r1, s1)
           \<and> role_incentive role a' poola team pct = Inr (r2, s2)
           \<and> m_incentive r1 \<le> m_incentive r2))"
  by (intro conjI impI; (elim conjE)?)
     (rule hyterce_monotone mr_annual_multiplier_salary mr_annual_monotone
        mr_volume_monotone mr_brand_monotone mr_quarterly_monotone manager_monotone
        resplash_monotone mr_annual_achievement_monotone mr_volume_achievement_monotone
        role_achievement_monotone; assumption)+

theorem amounts_monotone_witness:
  "(\<exists>r1 r2. hyterce_calculator (Some Syrup) 1200 3 = Inr (Some r1)
       \<and> hyterce_calculator (Some Syrup) 1500 3 = Inr (Some r2)
       \<and> h_slab r1 = h_slab r2 \<and> h_incentive r1 \<le> h_incentive r2)
   \<and> a_incentive (mr_annual_incentive 3 112 40000) \<le> a_incentive (mr_annual_incentive 3 112 50000)
   \<and> (\<exists>r1 r2. mr_volume_incentive (Some Quarter) 3 112 100000 = Some r1
       \<and> mr_volume_incentive (Some Quarter) 3 112 200000 = Some r2
       \<and> v_incentive r1 \<le> v_incentive r2)
   \<and> (\<exists>g v1 v2. mr_brand_incentive 3 2 = Inr (Some (g, v1))
       \<and> mr_brand_incentive 3 5 = Inr (Some (g, v2)) \<and> v1 \<le> v2)
   \<and> (\<exists>g v1 v2. mr_quarterly_brand_incentive 3 1 = Inr (Some (g, v1))
       \<and> mr_quarterly_brand_incentive 3 3 = Inr (Some (g, v2)) \<and> v1 \<le> v2)
   \<and> (\<exists>r1 r2 s1 s2. manager_incentive 60 1.5 112 100000 10 65 = Inr (r1, s1)
       \<and> manager_incentive 60 1.5 112 300000 10 65 = Inr (r2, s2)
       \<and> m_incentive r1 \<le> m_incentive r2)
   \<and> (\<exists>r1 r2. resplash_incentive 1000 3200 = Some r1
       \<and> resplash_incentive 1000 3400 = Some r2
       \<and> r_slab r1 = r_slab r2 \<and> r_precision_incentive r1 \<le> r_precision_incentive r2)"
proof -
  note m = amounts_monotone [of 3 1200 1500 Syrup 40000 50000 3 112 100000 200000 Quarter
      2 5 1 3 10 100000 300000 60 "1.5" 65 1000 3200 3400 115 ASM]
  have hs: "\<And>r1 r2. hyterce_calculator (Some Syrup) 1200 3 = Inr (Some r1) \<Longrightarrow>
      hyterce_calculator (Some Syrup) 1500 3 = Inr (Some r2) \<Longrightarrow> h_slab r1 = h_slab r2"
    by (auto simp: hyterce_calculator_def py_truediv_def Let_def)
  have rs: "\<And>r1 r2. resplash_incentive 1000 3200 = Some r1 \<Longrightarrow>
      resplash_incentive 1000 3400 = Some r2 \<Longrightarrow> r_slab r1 = r_slab r2"
    by (auto simp: resplash_incentive_def Let_def)
  from m have "\<exists>r1 r2. hyterce_calculator (Some Syrup) 1200 3 = Inr (Some r1)
         \<and> hyterce_calculator (Some Syrup) 1500 3 = Inr (Some r2)
         \<and> (h_slab r1 = h_slab r2 \<longrightarrow>
              h_rate r1 = h_rate r2 \<and> h_incentive r1 \<le> h_incentive r2)"
    by simp
  with hs have h: "\<exists>r1 r2. hyterce_calculator (Some Syrup) 1200 3 = Inr (Some r1)
       \<and> hyterce_calculator (Some Syrup) 1500 3 = Inr (Some r2)
       \<and> h_slab r1 = h_slab r2 \<and> h_incentive r1 \<le> h_incentive r2"
    by blast
  from m have a: "a_incentive (mr_annual_incentive 3 112 40000)
      \<le> a_incentive (mr_annual_incentive 3 112 50000)"
    by simp
  from m have v: "\<exists>r1 r2. mr_volume_incentive (Some Quarter) 3 112 100000 = Some r1
       \<and> mr_volume_incentive (Some Quarter) 3 112 200000 = Some r2
       \<and> v_incentive r1 \<le> v_incentive r2"
    by simp blast
  from m have b: "\<exists>g v1 v2. mr_brand_incentive 3 2 = Inr (Some (g, v1))
       \<and> mr_brand_incentive 3 5 = Inr (Some (g, v2)) \<and> v1 \<le> v2"
    by simp
  from m have q: "\<exists>g v1 v2. mr_quarterly_brand_incentive 3 1 = Inr (Some (g, v1))
       \<and> mr_quarterly_brand_incentive 3 3 = Inr (Some (g, v2)) \<and> v1 \<le> v2"
    by simp
  from m have g: "\<exists>r1 r2 s1 s2. manager_incentive 60 1.5 112 100000 10 65 = Inr (r1, s1)
       \<and> manager_incentive 60 1.5 112 300000 10 65 = Inr (r2, s2)
       \<and> m_incentive r1 \<le> m_incentive r2"
    by simp blast
  from m have "\<exists>r1 r2. resplash_incentive 1000 3200 = Some r1
       \<and> resplash_incentive 1000 3400 = Some r2
       \<and> (r_slab r1 = r_slab r2 \<longrightarrow>
            r_rate r1 = r_rate r2 \<and> r_precision_incentive r1 \<le> r_precision_incentive r2)"
    by simp
  with rs have r: "\<exists>r1 r2. resplash_incentive 1000 3200 = Some r1
       \<and> resplash_incentive 1000 3400 = Some r2
       \<and> r_slab r1 = r_slab r2 \<and> r_precision_incentive r1 \<le> r_precision_incentive r2"
    by blast
  from h a v b q g r show ?thesis by (intro conjI)
qed

text \<open>
  C10. For inputs within the documented constraints (numeric inputs non-negative, months
  1 to 3, counts 1 to 11 and 1 to 4, a team of at least one, a percentage between 0 and
  100) every rule returns without an error and its rate or multiplier and its amount are
  non-negative.
\<close>

theorem amounts_nonneg:
  assumes "0 \<le> units" and "1 \<le> months" and "months \<le> 3"
    and "0 \<le> p" and "0 \<le> a" and "0 \<le> salary" and "0 \<le> sale"
    and "1 \<le> n" and "n \<le> 11" and "1 \<le> k" and "k \<le> 4"
    and "0 \<le> pool" and "1 \<le> team" and "0 \<le> pct" and "pct \<le> 100"
    and "0 \<le> b" and "0 \<le> c"
  shows "(\<exists>res. hyterce_calculator product units months = Inr res
            \<and> (\<forall>r. res = Some r \<longrightarrow>
                  0 \<le> h_pcpm r \<and> 0 \<le> h_rate r \<and> 0 \<le> h_incentive r))
       \<and> 0 \<le> a_multiplier (mr_annual_incentive p a salary)
       \<and> 0 \<le> a_incentive (mr_annual_incentive p a salary)
       \<and> (\<forall>r. mr_volume_incentive per p a sale = Some r \<longrightarrow>
             0 \<le> v_rate r \<and> 0 \<le> v_incentive r)
       \<and> (\<exists>res. mr_brand_incentive p n = Inr res
            \<and> (\<forall>g v. res = Some (g, v) \<longrightarrow> 0 \<le> v))
       \<and> (\<exists>res. mr_quarterly_brand_incentive p k = Inr res
            \<and> (\<forall>g v. res = Some (g, v) \<longrightarrow> 0 \<le> v))
       \<and> (\<exists>r s. role_incentive role a pool team pct = Inr (r, s)
            \<and> 0 \<le> m_multiplier r \<and> 0 \<le> m_incentive r)
       \<and> (\<forall>r. resplash_incentive b c = Some r \<longrightarrow>
             0 \<le> r_rate r \<and> 0 \<le> r_precision_incentive r)"
proof -
  from assms(2) have m: "0 \<le> months" by simp
  show ?thesis
    using hyterce_nonneg [OF assms(1) m, of product]
      mr_annual_multiplier_nonneg [of p a salary]
      mr_annual_nonneg [OF assms(6), of p a]
      mr_volume_nonneg [OF assms(7), of per p a]
      mr_brand_nonneg [OF assms(8,9), of p]
      mr_quarterly_nonneg [OF assms(10,11), of p]
      role_nonneg [OF assms(13,12), of role a pct]
      resplash_nonneg [of b c]
    by (intro conjI) assumption+
qed

theorem amounts_nonneg_witness:
  "(\<exists>r. hyterce_calculator (Some Drops) 900 2 = Inr (Some r)
       \<and> 0 \<le> h_rate r \<and> 0 \<le> h_incentive r)
   \<and> 0 \<le> a_multiplier (mr_annual_incentive 3 107 40000)
   \<and> 0 \<le> a_incentive (mr_annual_incentive 3 107 40000)
   \<and> (\<exists>r. mr_volume_incentive (Some Quarter) 3 107 200000 = Some r
       \<and> 0 \<le> v_rate r \<and> 0 \<le> v_incentive r)
   \<and> (\<exists>g v. mr_brand_incentive 3 5 = Inr (Some (g, v)) \<and> 0 \<le> v)
   \<and> (\<exists>g v. mr_quarterly_brand_incentive 3 3 = Inr (Some (g, v)) \<and> 0 \<le> v)
   \<and> (\<exists>r s. role_incentive ASM 107 300000 10 65 = Inr (r, s)
       \<and> 0 \<le> m_multiplier r \<and> 0 \<le> m_incentive r)
   \<and> (\<exists>r. resplash_incentive 1000 3200 = Some r
       \<and> 0 \<le> r_rate r \<and> 0 \<le> r_precision_incentive r)"
proof -
  note w = amounts_nonneg [of 900 2 3 107 40000 200000 5 3 300000 10 65 1000 3200
      "Some Drops" "Some Quarter" ASM]
  have g3: "group_of_pcpm 3 = Some Group_C"
    by (simp add: group_of_pcpm_def)
  have hr: "\<exists>r. hyterce_calculator (Some Drops) 900 2 = Inr (Some r)"
    by (simp add: hyterce_calculator_def py_truediv_def Let_def)
  have vr: "\<exists>r. mr_volume_incentive (Some Quarter) 3 107 200000 = Some r"
    by (simp add: mr_volume_incentive_def g3 Let_def)
  have br: "\<exists>v. mr_brand_incentive 3 5 = Inr (Some (Group_C, v))"
    by (simp add: mr_brand_incentive_def g3 py_getitem_def brand_amounts_def)
  have qr: "\<exists>v. mr_quarterly_brand_incentive 3 3 = Inr (Some (Group_C, v))"
    by (simp add: mr_quarterly_brand_incentive_def g3 py_getitem_def quarterly_amounts_def)
  have rr: "\<exists>r. resplash_incentive 1000 3200 = Some r"
    by (simp add: resplash_incentive_def Let_def)
  from w have "\<exists>res. hyterce_calculator (Some Drops) 900 2 = Inr res
            \<and> (\<forall>r. res = Some r \<longrightarrow>
                  0 \<le> h_pcpm r \<and> 0 \<le> h_rate r \<and> 0 \<le> h_incentive r)"
    by simp
  with hr have h: "\<exists>r. hyterce_calculator (Some Drops) 900 2 = Inr (Some r)
       \<and> 0 \<le> h_rate r \<and> 0 \<le> h_incentive r"
    by auto
  from w have a: "0 \<le> a_multiplier (mr_annual_incentive 3 107 40000)"
      "0 \<le> a_incentive (mr_annual_incentive 3 107 40000)"
    by simp_all
  from w have "\<forall>r. mr_volume_incentive (Some Quarter) 3 107 200000 = Some r \<longrightarrow>
             0 \<le> v_rate r \<and> 0 \<le> v_incentive r"
    by simp
  with vr have v: "\<exists>r. mr_volume_incentive (Some Quarter) 3 107 200000 = Some r
       \<and> 0 \<le> v_rate r \<and> 0 \<le> v_incentive r"
    by auto
  from w have "\<exists>res. mr_brand_incentive 3 5 = Inr res
            \<and> (\<forall>g v. res = Some (g, v) \<longrightarrow> 0 \<le> v)"
    by simp
  with br have b: "\<exists>g v. mr_brand_incentive 3 5 = Inr (Some (g, v)) \<and> 0 \<le> v"
    by auto
  from w have "\<exists>res. mr_quarterly_brand_incentive 3 3 = Inr res
            \<and> (\<forall>g v. res = Some (g, v) \<longrightarrow> 0 \<le> v)"
    by simp
  with qr have q: "\<exists>g v. mr_quarterly_brand_incentive 3 3 = Inr (Some (g, v)) \<and> 0 \<le> v"
    by auto
  from w have g: "\<exists>r s. role_incentive ASM 107 300000 10 65 = Inr (r, s)
       \<and> 0 \<le> m_multiplier r \<and> 0 \<le> m_incentive r"
    by simp
  from w have "\<forall>r. resplash_incentive 1000 3200 = Some r \<longrightarrow>
             0 \<le> r_rate r \<and> 0 \<le> r_precision_incentive r"
    by simp
  with rr have r: "\<exists>r. resplash_incentive 1000 3200 = Some r
       \<and> 0 \<le> r_rate r \<and> 0 \<le> r_precision_incentive r"
    by auto
  from h a v b q g r show ?thesis by (intro conjI)
qed

end
